theory Spec2Isabelle
  imports Main "HOL-Library.Word" "HOL-Library.Sublist"
begin

unbundle bit_operations_syntax

section \<open>Data model of libredex/DexUtil.cpp\<close>

text \<open>
  A \<open>DexType*\<close> is an interned handle: the registry keeps one object per descriptor
  string, so two handles are the same pointer exactly when their descriptors are equal.
  A handle is therefore modelled by its descriptor. Descriptors are MUTF-8 strings, which
  never hold a NUL byte, so the list of characters is what \<open>c_str()\<close> walks and the end of
  the list is its terminating NUL. A pointer that may be null is an \<open>option\<close>.
\<close>

datatype DexType = DexType (get_name: string)

text \<open>
  Modelled from the spec: \<open>DexType::make_type\<close> is declared in DexClass.h, a header
  that DexUtil.cpp only includes. The spec's Type Registry contract: it returns the single
  canonical handle of the descriptor, the identical handle for an equal descriptor.
\<close>

definition make_type :: "string \<Rightarrow> DexType" where
  "make_type name = DexType name"

datatype DexMethod = DexMethod (method_name: string)

datatype DexField = DexField (field_name: string)

record DexClass =
  get_type :: DexType
  get_super_class :: "DexType option"
  get_interfaces :: "DexType list"
  get_access :: "32 word"
  get_dmethods :: "DexMethod list"
  get_vmethods :: "DexMethod list"
  get_ifields :: "DexField list"

text \<open>
  Modelled from the spec: the macros \<open>not_reached()\<close> and \<open>assert_log\<close> are defined in
  Debug.h, a header that DexUtil.cpp only includes. The spec calls control arriving at
  \<open>not_reached()\<close> the unreachable-state fault, which aborts, and a failing \<open>assert_log\<close>
  an assertion failure. A function that can reach either returns \<open>fault + 'a\<close>.
\<close>

datatype fault = Not_Reached | Assert_Failed

datatype DataType =
  Void | Boolean | Byte | Short | Char | Int_t | Long | Float | Double | Object | Array

definition get_object_type :: DexType where
  "get_object_type = make_type ''Ljava/lang/Object;''"

definition get_void_type :: DexType where
  "get_void_type = make_type ''V''"

definition get_int_type :: DexType where
  "get_int_type = make_type ''I''"

definition get_long_type :: DexType where
  "get_long_type = make_type ''J''"

definition get_boolean_type :: DexType where
  "get_boolean_type = make_type ''Z''"

definition get_double_type :: DexType where
  "get_double_type = make_type ''D''"

section \<open>Classification by the leading symbol\<close>

text \<open>\<open>name[0]\<close> of a C string: the first character, or the terminating NUL.\<close>

definition name0 :: "string \<Rightarrow> char" where
  "name0 name = (case name of [] \<Rightarrow> CHR 0x00 | c # _ \<Rightarrow> c)"

definition is_primitive :: "DexType \<Rightarrow> fault + bool" where
  "is_primitive type =
     (let c = name0 (get_name type) in
      if c = CHR ''Z'' \<or> c = CHR ''B'' \<or> c = CHR ''S'' \<or> c = CHR ''C'' \<or>
         c = CHR ''I'' \<or> c = CHR ''J'' \<or> c = CHR ''F'' \<or> c = CHR ''D''
      then Inr True
      else if c = CHR ''L'' \<or> c = CHR ''['' \<or> c = CHR ''V''
      then Inr False
      else Inl Not_Reached)"

definition type_to_datatype :: "DexType \<Rightarrow> fault + DataType" where
  "type_to_datatype t =
     (let c = name0 (get_name t) in
      if c = CHR ''V'' then Inr Void
      else if c = CHR ''Z'' then Inr Boolean
      else if c = CHR ''B'' then Inr Byte
      else if c = CHR ''S'' then Inr Short
      else if c = CHR ''C'' then Inr Char
      else if c = CHR ''I'' then Inr Int_t
      else if c = CHR ''J'' then Inr Long
      else if c = CHR ''F'' then Inr Float
      else if c = CHR ''D'' then Inr Double
      else if c = CHR ''L'' then Inr Object
      else if c = CHR ''['' then Inr Array
      else Inl Not_Reached)"

section \<open>Arrays\<close>

definition is_array :: "DexType \<Rightarrow> bool" where
  "is_array type = (name0 (get_name type) = CHR ''['')"

text \<open>
  The loop \<open>while (*name++ == '[' && ++level) ;\<close> of \<open>get_array_level\<close>: \<open>level\<close> is a
  \<open>uint32_t\<close>, and the loop also ends when the increment wraps to zero.
\<close>

fun level_loop :: "string \<Rightarrow> 32 word \<Rightarrow> 32 word" where
  "level_loop [] level = level"
| "level_loop (c # name) level =
     (if c = CHR ''[''
      then (if level + 1 \<noteq> 0 then level_loop name (level + 1) else level + 1)
      else level)"

definition get_array_level :: "DexType \<Rightarrow> 32 word" where
  "get_array_level type = level_loop (get_name type) 0"

text \<open>The loop \<open>while (*name == '[') name++;\<close> of \<open>get_array_type\<close>.\<close>

fun skip_markers :: "string \<Rightarrow> string" where
  "skip_markers [] = []"
| "skip_markers (c # name) = (if c = CHR ''['' then skip_markers name else c # name)"

definition get_array_type :: "DexType \<Rightarrow> DexType option" where
  "get_array_type type =
     (if \<not> is_array type then None
      else Some (make_type (skip_markers (get_name type))))"

text \<open>The number of leading array markers of a descriptor.\<close>

definition markers :: "string \<Rightarrow> nat" where
  "markers name = length (takeWhile (\<lambda>c. c = CHR ''['') name)"

section \<open>The hierarchy index\<close>

text \<open>
  The two file-level maps \<open>type_to_class\<close> and \<open>class_hierarchy\<close>, passed explicitly.
  Both are empty when the process starts. A \<open>DexClass*\<close> stored in the index is modelled by
  the class it points to: none of the functions here changes a class. The mutex only
  serialises callers, so one call is one step of the state.
\<close>

record type_system =
  type_to_class :: "DexType \<rightharpoonup> DexClass"
  class_hierarchy :: "DexType \<rightharpoonup> DexType list"

definition empty_system :: type_system where
  "empty_system = \<lparr>type_to_class = Map.empty, class_hierarchy = Map.empty\<rparr>"

text \<open>\<open>std::unordered_map::emplace\<close>: nothing is stored when the key is present.\<close>

definition emplace :: "('k \<rightharpoonup> 'v) \<Rightarrow> 'k \<Rightarrow> 'v \<Rightarrow> ('k \<rightharpoonup> 'v)" where
  "emplace m k v = (case m k of None \<Rightarrow> m(k \<mapsto> v) | Some _ \<Rightarrow> m)"

text \<open>\<open>class_hierarchy[super].push_back(type)\<close>: \<open>operator[]\<close> makes an empty vector first.\<close>

definition push_child :: "(DexType \<rightharpoonup> DexType list) \<Rightarrow> DexType \<Rightarrow> DexType \<Rightarrow> (DexType \<rightharpoonup> DexType list)" where
  "push_child h super type =
     h(super \<mapsto> (case h super of None \<Rightarrow> [] | Some children \<Rightarrow> children) @ [type])"

definition build_type_system :: "DexClass \<Rightarrow> type_system \<Rightarrow> type_system" where
  "build_type_system cls ts =
     (let type = get_type cls;
          ts1 = ts\<lparr>type_to_class := emplace (type_to_class ts) type cls\<rparr>
      in case get_super_class cls of
           None \<Rightarrow> ts1
         | Some super \<Rightarrow> ts1\<lparr>class_hierarchy := push_child (class_hierarchy ts1) super type\<rparr>)"

text \<open>The index after the classes \<open>cs\<close> were registered, in that order, from the start.\<close>

definition register_all :: "DexClass list \<Rightarrow> type_system" where
  "register_all cs = fold build_type_system cs empty_system"

text \<open>
  \<open>type_class_of\<close> is \<open>type_class\<close> of the source (the name is reserved in Isabelle).
  No key of either map is the null pointer (keys are \<open>cls->get_type()\<close> and a superclass
  tested non-null), so \<open>find\<close> of a null pointer finds nothing.
\<close>

definition type_class_of :: "type_system \<Rightarrow> DexType option \<Rightarrow> DexClass option" where
  "type_class_of ts t = (case t of None \<Rightarrow> None | Some t' \<Rightarrow> type_to_class ts t')"

definition get_children :: "type_system \<Rightarrow> DexType option \<Rightarrow> DexType list" where
  "get_children ts type =
     (case type of
        None \<Rightarrow> []
      | Some t \<Rightarrow> (case class_hierarchy ts t of None \<Rightarrow> [] | Some children \<Rightarrow> children))"

text \<open>
  \<open>check_cast\<close> recurses along superclasses and interfaces and does not return on a cyclic
  index. The first argument bounds the depth of the calls; \<open>None\<close> is a run that needed
  more. \<open>check_cast_intfs\<close> is the \<open>for\<close> loop over the interface list.
\<close>

fun check_cast :: "nat \<Rightarrow> type_system \<Rightarrow> DexType option \<Rightarrow> DexType option \<Rightarrow> bool option"
and check_cast_intfs :: "nat \<Rightarrow> type_system \<Rightarrow> DexType list \<Rightarrow> DexType option \<Rightarrow> bool option"
where
  "check_cast 0 ts type base_type = None"
| "check_cast (Suc n) ts type base_type =
     (if type = base_type then Some True
      else case type_class_of ts type of
             None \<Rightarrow> Some False
           | Some cls \<Rightarrow>
               (case check_cast n ts (get_super_class cls) base_type of
                  None \<Rightarrow> None
                | Some b \<Rightarrow>
                    if b then Some True
                    else check_cast_intfs n ts (get_interfaces cls) base_type))"
| "check_cast_intfs n ts [] base_type = Some False"
| "check_cast_intfs n ts (intf # intfs) base_type =
     (case check_cast n ts (Some intf) base_type of
        None \<Rightarrow> None
      | Some b \<Rightarrow> if b then Some True else check_cast_intfs n ts intfs base_type)"

section \<open>The footprint estimator\<close>

text \<open>
  \<open>regcomp(_, str, 0)\<close> compiles a POSIX basic regular expression. Every pattern of
  \<open>compile_regexes\<close> is a run of ordinary characters followed by \<open>$\<close>, which as the last
  character of a basic regular expression anchors the match at the end of the string. The
  model covers that fragment: ordinary characters and the final anchor. \<open>regexec\<close> searches
  for a match starting at any position; \<open>True\<close> is its return value 0.
\<close>

datatype re_atom = Lit char | Eol

definition regcomp :: "string \<Rightarrow> re_atom list" where
  "regcomp str =
     (case rev str of
        [] \<Rightarrow> []
      | c # r \<Rightarrow> if c = CHR ''$'' then map Lit (rev r) @ [Eol] else map Lit str)"

fun match_here :: "re_atom list \<Rightarrow> string \<Rightarrow> bool" where
  "match_here [] s = True"
| "match_here (Eol # re) s = (s = [] \<and> match_here re s)"
| "match_here (Lit c # re) [] = False"
| "match_here (Lit c # re) (x # s) = (c = x \<and> match_here re s)"

fun regexec :: "re_atom list \<Rightarrow> string \<Rightarrow> bool" where
  "regexec re [] = match_here re []"
| "regexec re (x # s) = (match_here re (x # s) \<or> regexec re s)"

record PenaltyPattern =
  regex :: "re_atom list"
  penalty :: "32 word"

definition compile_regexes :: "PenaltyPattern list" where
  "compile_regexes =
     [\<lparr>regex = regcomp ''Layout;$'', penalty = 1500\<rparr>,
      \<lparr>regex = regcomp ''View;$'', penalty = 1500\<rparr>,
      \<lparr>regex = regcomp ''ViewGroup;$'', penalty = 1800\<rparr>,
      \<lparr>regex = regcomp ''Activity;$'', penalty = 1500\<rparr>]"

definition kObjectVtable :: "32 word" where
  "kObjectVtable = 48"

definition kMethodSize :: "32 word" where
  "kMethodSize = 52"

definition kInstanceFieldSize :: "32 word" where
  "kInstanceFieldSize = 16"

definition kVtableSlotSize :: "32 word" where
  "kVtableSlotSize = 4"

text \<open>
  The loop of \<open>matches_penalty\<close> over the patterns. The reference parameter \<open>penalty\<close> is
  returned beside the result: it is overwritten only on a match.
\<close>

fun match_patterns :: "PenaltyPattern list \<Rightarrow> string \<Rightarrow> 32 word \<Rightarrow> bool \<times> 32 word" where
  "match_patterns [] string pen = (False, pen)"
| "match_patterns (pattern # patterns) string pen =
     (if regexec (regex pattern) string then (True, penalty pattern)
      else match_patterns patterns string pen)"

definition matches_penalty :: "string \<Rightarrow> 32 word \<Rightarrow> bool \<times> 32 word" where
  "matches_penalty string pen = match_patterns compile_regexes string pen"

text \<open>
  Modelled from the spec: \<open>DEX_ACCESS_INTERFACE\<close> is declared in a header that
  DexUtil.cpp only includes. The spec calls it the interface access flag; the value is
  the one of the dex format (\<open>ACC_INTERFACE\<close>).
\<close>

definition DEX_ACCESS_INTERFACE :: "32 word" where
  "DEX_ACCESS_INTERFACE = 0x200"

text \<open>
  \<open>lasize\<close> is an \<open>int\<close>. Each \<open>lasize += size() * k\<close> is computed in \<open>size_t\<close> and converted
  back to \<open>int\<close>, so the sum is exact modulo \<open>2 ^ 32\<close>: the arithmetic of \<open>32 word\<close>, read as
  a signed number by \<open>sint\<close>.
\<close>

definition estimate_linear_alloc :: "DexClass \<Rightarrow> 32 word" where
  "estimate_linear_alloc clazz =
     (let lasize = 0;
          lasize =
            (if get_access clazz AND DEX_ACCESS_INTERFACE = 0
             then
               let (matched, vtablePenalty) =
                     matches_penalty (get_name (get_type clazz)) kObjectVtable;
                   vtablePenalty =
                     (if \<not> matched
                      then (case get_super_class clazz of
                              None \<Rightarrow> vtablePenalty
                            | Some super \<Rightarrow> snd (matches_penalty (get_name super) vtablePenalty))
                      else vtablePenalty);
                   lasize = lasize + vtablePenalty
               in lasize + of_nat (length (get_vmethods clazz)) * kVtableSlotSize
             else lasize);
          lasize = lasize + of_nat (length (get_dmethods clazz)) * kMethodSize;
          lasize = lasize + of_nat (length (get_vmethods clazz)) * kMethodSize;
          lasize = lasize + of_nat (length (get_ifields clazz)) * kInstanceFieldSize
      in lasize)"

section \<open>The scope\<close>

text \<open>
  A \<open>Scope\<close> and each element of a \<open>DexClassesVector\<close> is a vector of \<open>DexClass*\<close>. The
  functions below only copy and compare these pointers, so the pointer type is a type
  variable \<open>'c\<close>: equality on it is pointer identity.
\<close>

fun push_classes :: "'c list \<Rightarrow> 'c list \<Rightarrow> 'c list" where
  "push_classes v [] = v"
| "push_classes v (clazz # classes) = push_classes (v @ [clazz]) classes"

fun push_dexen :: "'c list \<Rightarrow> 'c list list \<Rightarrow> 'c list" where
  "push_dexen v [] = v"
| "push_dexen v (classes # dexen) = push_dexen (push_classes v classes) dexen"

definition build_class_scope :: "'c list list \<Rightarrow> 'c list" where
  "build_class_scope dexen = push_dexen [] dexen"

text \<open>
  \<open>classes.erase(std::remove_if(classes.begin(), classes.end(), pred), classes.end())\<close>:
  the elements that do not satisfy \<open>pred\<close>, in their order.
\<close>

fun erase_remove_if :: "('c \<Rightarrow> bool) \<Rightarrow> 'c list \<Rightarrow> 'c list" where
  "erase_remove_if pred [] = []"
| "erase_remove_if pred (cls # classes) =
     (if pred cls then erase_remove_if pred classes
      else cls # erase_remove_if pred classes)"

text \<open>
  \<open>debug\<close> is a constant of Debug.h and is a parameter here. The result is the new value
  of \<open>dexen\<close>, or the fault of the failing \<open>assert_log\<close>.
\<close>

definition post_dexen_changes :: "bool \<Rightarrow> 'c list \<Rightarrow> 'c list list \<Rightarrow> fault + 'c list list" where
  "post_dexen_changes debug v dexen =
     (let clookup = set v;
          dexen' = map (erase_remove_if (\<lambda>cls. cls \<notin> clookup)) dexen;
          dlookup = set (concat dexen')
      in if debug \<and> \<not> (\<forall>cls \<in> clookup. cls \<in> dlookup) then Inl Assert_Failed
         else Inr dexen')"

section \<open>Array depth and element type\<close>

lemma markers_simps:
  "markers [] = 0"
  "markers (c # name) = (if c = CHR ''['' then Suc (markers name) else 0)"
  by (simp_all add: markers_def)

lemma level_loop_markers:
  "level_loop name l =
     (if unat l + markers name < 2 ^ 32 then l + of_nat (markers name) else 0)"
proof (induction name arbitrary: l)
  case Nil
  have "unat l < 2 ^ 32" using unsigned_less [of l] by simp
  then show ?case by (simp add: markers_simps)
next
  case (Cons c name)
  show ?case
  proof (cases "c = CHR ''[''")
    case False
    have "unat l < 2 ^ 32" using unsigned_less [of l] by simp
    with False show ?thesis by (simp add: markers_simps)
  next
    case True
    show ?thesis
    proof (cases "l + 1 = 0")
      case wrap: True
      then have "l = - 1" by (simp add: eq_neg_iff_add_eq_0)
      then have "unat l = 4294967295"
        by (simp add: unsigned_minus_1_eq_mask mask_eq_exp_minus_1)
      with True wrap show ?thesis by (simp add: markers_simps)
    next
      case nowrap: False
      then have u: "unat (l + 1) = Suc (unat l)"
        using unatSuc [of l] by (simp add: add.commute)
      show ?thesis using True nowrap u Cons.IH [of "l + 1"]
        by (simp add: markers_simps add.assoc add.commute)
    qed
  qed
qed

lemma level_loop_skip: "level_loop (skip_markers name) 0 = 0"
  by (induction name) auto

lemma skip_markers_drop: "skip_markers name = dropWhile (\<lambda>c. c = CHR ''['') name"
  by (induction name) auto

lemma get_array_level_markers:
  "get_array_level t =
     (if markers (get_name t) < 2 ^ 32 then of_nat (markers (get_name t)) else 0)"
  by (simp add: get_array_level_def level_loop_markers)

lemma get_array_level_one: "get_array_level t = 1 \<longleftrightarrow> markers (get_name t) = 1"
proof (cases "markers (get_name t) < 2 ^ 32")
  case True
  then have "unat (of_nat (markers (get_name t)) :: 32 word) = markers (get_name t)"
    by (simp add: unat_of_nat)
  then have "(of_nat (markers (get_name t)) :: 32 word) = 1 \<longleftrightarrow> markers (get_name t) = 1"
    by (metis of_nat_1 unat_1)
  with True show ?thesis by (simp add: get_array_level_markers)
next
  case False
  then show ?thesis by (simp add: get_array_level_markers)
qed

text \<open>
  Claim C1 as stated fails: \<open>get_array_type\<close> strips every leading marker, so for the
  descriptor \<open>[[I\<close> the element type is \<open>I\<close>, of depth 0, while the depth of \<open>[[I\<close> is 2.
\<close>

theorem array_level_counterexample:
  "is_array (make_type ''[[I'') \<and>
   get_array_type (make_type ''[[I'') = Some (make_type ''I'') \<and>
   get_array_level (make_type ''I'') + 1 \<noteq> get_array_level (make_type ''[[I'')"
  by (simp add: is_array_def get_array_type_def get_array_level_def make_type_def name0_def)

text \<open>
  Claim C1, amended: for every array-type handle \<open>t\<close> (descriptor with at least one
  leading array marker), \<open>get_array_type(t)\<close> is the handle, not null, of the descriptor
  of \<open>t\<close> with all its leading markers stripped, and the array nesting depth of that
  element type is 0; so \<open>get_array_level(get_array_type(t)) + 1 == get_array_level(t)\<close>
  holds exactly when the descriptor of \<open>t\<close> has exactly one leading array marker.
\<close>

theorem array_level_stripped:
  assumes "is_array t"
  shows "get_array_type t = Some (make_type (dropWhile (\<lambda>c. c = CHR ''['') (get_name t))) \<and>
         get_array_level (make_type (dropWhile (\<lambda>c. c = CHR ''['') (get_name t))) = 0 \<and>
         (get_array_level (make_type (dropWhile (\<lambda>c. c = CHR ''['') (get_name t))) + 1
            = get_array_level t \<longleftrightarrow> markers (get_name t) = 1) \<and>
         0 < markers (get_name t)"
proof -
  let ?e = "make_type (dropWhile (\<lambda>c. c = CHR ''['') (get_name t))"
  have 1: "get_array_type t = Some ?e"
    using assms by (simp add: get_array_type_def skip_markers_drop)
  have 2: "get_array_level ?e = 0"
    using level_loop_skip [of "get_name t"]
    by (simp add: get_array_level_def make_type_def skip_markers_drop)
  have 3: "get_array_level ?e + 1 = get_array_level t \<longleftrightarrow> markers (get_name t) = 1"
    using get_array_level_one [of t] by (auto simp: 2)
  have 4: "0 < markers (get_name t)"
    using assms by (cases "get_name t") (simp_all add: is_array_def name0_def markers_simps)
  from 1 2 3 4 show ?thesis by blast
qed

theorem array_level_stripped_witness:
  "is_array (make_type ''[Ljava/lang/String;'') \<and>
   get_array_type (make_type ''[Ljava/lang/String;'') = Some (make_type ''Ljava/lang/String;'') \<and>
   get_array_level (make_type ''Ljava/lang/String;'') = 0 \<and>
   get_array_level (make_type ''Ljava/lang/String;'') + 1
     = get_array_level (make_type ''[Ljava/lang/String;'') \<and>
   markers (get_name (make_type ''[Ljava/lang/String;'')) = 1 \<and>
   is_array (make_type ''[[I'') \<and>
   get_array_type (make_type ''[[I'') = Some (make_type ''I'') \<and>
   get_array_level (make_type ''I'') = 0 \<and>
   get_array_level (make_type ''I'') + 1 \<noteq> get_array_level (make_type ''[[I'') \<and>
   markers (get_name (make_type ''[[I'')) = 2"
proof -
  have a: "is_array (make_type ''[Ljava/lang/String;'')" "is_array (make_type ''[[I'')"
    by (simp_all add: is_array_def make_type_def name0_def)
  have d: "dropWhile (\<lambda>c. c = CHR ''['') (get_name (make_type ''[Ljava/lang/String;''))
             = ''Ljava/lang/String;''"
    "dropWhile (\<lambda>c. c = CHR ''['') (get_name (make_type ''[[I'')) = ''I''"
    by (simp_all add: make_type_def)
  have m: "markers (get_name (make_type ''[Ljava/lang/String;'')) = 1"
    "markers (get_name (make_type ''[[I'')) = 2"
    by (simp_all add: markers_def make_type_def)
  from array_level_stripped [OF a(1)] array_level_stripped [OF a(2)] a d m
  show ?thesis by auto
qed

section \<open>Classification\<close>

text \<open>
  Claim C2 as stated fails: \<open>is_primitive\<close> does not return true on the handle of the void
  descriptor \<open>V\<close>.
\<close>

theorem is_primitive_void_counterexample:
  "is_primitive (make_type ''V'') \<noteq> Inr True"
  by (simp add: is_primitive_def make_type_def name0_def)

text \<open>
  Claim C2, amended: \<open>is_primitive\<close> returns false on the handle of the void descriptor
  \<open>V\<close>, which \<open>type_to_datatype\<close> classifies as the kind void; \<open>is_primitive\<close> returns
  true exactly on the descriptors whose leading symbol is one of Z, B, S, C, I, J, F, D.
\<close>

theorem is_primitive_void:
  "is_primitive (make_type ''V'') = Inr False \<and>
   type_to_datatype (make_type ''V'') = Inr Void \<and>
   (is_primitive t = Inr True \<longleftrightarrow> name0 (get_name t) \<in> set ''ZBSCIJFD'')"
  by (auto simp: is_primitive_def type_to_datatype_def make_type_def name0_def Let_def)

theorem is_primitive_void_witness:
  "is_primitive (make_type ''V'') = Inr False \<and>
   type_to_datatype (make_type ''V'') = Inr Void \<and>
   is_primitive (make_type ''J'') = Inr True \<and>
   is_primitive (make_type ''Ljava/lang/Void;'') = Inr False"
  using is_primitive_void [of "make_type ''J''"]
    is_primitive_void [of "make_type ''Ljava/lang/Void;''"]
  by (simp add: is_primitive_def make_type_def name0_def)

text \<open>
  Claim C9: on a descriptor whose leading symbol is one of V, Z, B, S, C, I, J, F, D, L, [
  both \<open>is_primitive\<close> and \<open>type_to_datatype\<close> return a result and do not reach
  \<open>not_reached()\<close>; on any other leading symbol (the terminating NUL of the empty
  descriptor included) both reach \<open>not_reached()\<close> and return nothing.
\<close>

theorem classification_total:
  "(name0 (get_name t) \<in> set ''VZBSCIJFDL['' \<longrightarrow>
      (\<exists>b. is_primitive t = Inr b) \<and> (\<exists>d. type_to_datatype t = Inr d)) \<and>
   (name0 (get_name t) \<notin> set ''VZBSCIJFDL['' \<longrightarrow>
      is_primitive t = Inl Not_Reached \<and> type_to_datatype t = Inl Not_Reached)"
  by (auto simp: is_primitive_def type_to_datatype_def Let_def)

theorem classification_total_witness:
  "name0 (get_name (make_type ''Lfoo;'')) \<in> set ''VZBSCIJFDL['' \<and>
   is_primitive (make_type ''Lfoo;'') = Inr False \<and>
   type_to_datatype (make_type ''Lfoo;'') = Inr Object \<and>
   name0 (get_name (make_type ''Xfoo'')) \<notin> set ''VZBSCIJFDL['' \<and>
   is_primitive (make_type ''Xfoo'') = Inl Not_Reached \<and>
   type_to_datatype (make_type ''Xfoo'') = Inl Not_Reached \<and>
   name0 (get_name (make_type [])) \<notin> set ''VZBSCIJFDL['' \<and>
   is_primitive (make_type []) = Inl Not_Reached \<and>
   type_to_datatype (make_type []) = Inl Not_Reached"
  using classification_total [of "make_type ''Lfoo;''"]
    classification_total [of "make_type ''Xfoo''"]
    classification_total [of "make_type []"]
  by (simp add: is_primitive_def type_to_datatype_def make_type_def name0_def)

section \<open>The hierarchy index: registration and lookup\<close>

lemma type_to_class_build:
  "type_to_class (build_type_system cls ts) t =
     (if t = get_type cls \<and> type_to_class ts t = None then Some cls else type_to_class ts t)"
  by (auto simp: build_type_system_def emplace_def Let_def split: option.splits)

lemma class_hierarchy_build:
  "class_hierarchy (build_type_system cls ts) t =
     (if get_super_class cls = Some t
      then Some ((case class_hierarchy ts t of None \<Rightarrow> [] | Some children \<Rightarrow> children)
                 @ [get_type cls])
      else class_hierarchy ts t)"
  by (auto simp: build_type_system_def push_child_def Let_def split: option.splits)

lemma get_children_build:
  "get_children (build_type_system cls ts) (Some t) =
     (if get_super_class cls = Some t then get_children ts (Some t) @ [get_type cls]
      else get_children ts (Some t))"
  by (simp add: get_children_def class_hierarchy_build split: option.splits)

lemma type_to_class_fold:
  "type_to_class (fold build_type_system cs ts) t = None \<longleftrightarrow>
     type_to_class ts t = None \<and> t \<notin> get_type ` set cs"
  by (induction cs arbitrary: ts) (auto simp: type_to_class_build)

lemma class_hierarchy_fold:
  "class_hierarchy (fold build_type_system cs ts) t = None \<longleftrightarrow>
     class_hierarchy ts t = None \<and> Some t \<notin> get_super_class ` set cs"
  by (induction cs arbitrary: ts) (auto simp: class_hierarchy_build)

lemma empty_system_simps:
  "type_to_class empty_system t = None"
  "class_hierarchy empty_system t = None"
  "get_children empty_system x = []"
  "type_class_of empty_system x = None"
  by (simp_all add: empty_system_def get_children_def type_class_of_def split: option.splits)

text \<open>
  The result of \<open>check_cast\<close> does not depend on the bound once the bound suffices.
\<close>

lemma check_cast_more_fuel:
  "(check_cast n ts t b = Some r \<longrightarrow> check_cast (Suc n) ts t b = Some r)"
  "(check_cast_intfs n ts is b = Some r \<longrightarrow> check_cast_intfs (Suc n) ts is b = Some r)"
proof (induction n ts t b and n ts "is" b arbitrary: r and r rule: check_cast_check_cast_intfs.induct)
  case (1 ts type base_type)
  show ?case by simp
next
  case (2 n ts type base_type)
  show ?case
  proof
    assume a: "check_cast (Suc n) ts type base_type = Some r"
    show "check_cast (Suc (Suc n)) ts type base_type = Some r"
    proof (cases "type = base_type")
      case True
      with a show ?thesis by simp
    next
      case ne: False
      show ?thesis
      proof (cases "type_class_of ts type")
        case None
        with a ne show ?thesis by simp
      next
        case (Some cls)
        from a ne Some obtain b where
          b: "check_cast n ts (get_super_class cls) base_type = Some b"
          by (auto split: option.splits)
        with "2.IH"(1) [OF ne Some] have b': "check_cast (Suc n) ts (get_super_class cls) base_type = Some b"
          by simp
        show ?thesis
        proof (cases b)
          case True
          with a ne Some b b' show ?thesis by simp
        next
          case False
          with a ne Some b have "check_cast_intfs n ts (get_interfaces cls) base_type = Some r"
            by simp
          with "2.IH"(2) [OF ne Some b] False
          have "check_cast_intfs (Suc n) ts (get_interfaces cls) base_type = Some r" by simp
          with ne Some b' False show ?thesis by simp
        qed
      qed
    qed
  qed
next
  case (3 n ts base_type)
  show ?case by simp
next
  case (4 n ts intf intfs base_type)
  show ?case
  proof
    assume a: "check_cast_intfs n ts (intf # intfs) base_type = Some r"
    then obtain b where b: "check_cast n ts (Some intf) base_type = Some b"
      by (auto split: option.splits)
    with "4.IH"(1) have b': "check_cast (Suc n) ts (Some intf) base_type = Some b" by simp
    show "check_cast_intfs (Suc n) ts (intf # intfs) base_type = Some r"
    proof (cases b)
      case True
      with a b b' show ?thesis by simp
    next
      case False
      with a b have "check_cast_intfs n ts intfs base_type = Some r" by simp
      with "4.IH"(2) [OF b] False have "check_cast_intfs (Suc n) ts intfs base_type = Some r"
        by simp
      with b' False show ?thesis by simp
    qed
  qed
qed

text \<open>
  Claim C6: when a class that declares a superclass is registered twice, the second
  \<open>emplace\<close> stores nothing, so \<open>type_class\<close> of its handle is what it was after the first
  registration (the class itself when the handle had no entry before); the same holds
  when the second registration is another definition of the same handle. The direct
  subclass list of the superclass has the handle of the class appended twice.
\<close>

theorem register_twice:
  assumes "get_super_class cls = Some super"
  shows "type_class_of (build_type_system cls (build_type_system cls ts)) (Some (get_type cls))
           = type_class_of (build_type_system cls ts) (Some (get_type cls)) \<and>
         (type_to_class ts (get_type cls) = None \<longrightarrow>
            type_class_of (build_type_system cls (build_type_system cls ts))
              (Some (get_type cls)) = Some cls) \<and>
         get_children (build_type_system cls (build_type_system cls ts)) (Some super)
           = get_children ts (Some super) @ [get_type cls, get_type cls] \<and>
         (get_type cls' = get_type cls \<longrightarrow>
            type_class_of (build_type_system cls' (build_type_system cls ts))
              (Some (get_type cls))
              = type_class_of (build_type_system cls ts) (Some (get_type cls)))"
  using assms by (simp add: type_class_of_def type_to_class_build get_children_build)

theorem register_twice_witness:
  "get_super_class
     \<lparr>get_type = make_type ''LA;'', get_super_class = Some (make_type ''LB;''),
      get_interfaces = [], get_access = 1, get_dmethods = [], get_vmethods = [],
      get_ifields = []\<rparr> = Some (make_type ''LB;'') \<and>
   type_class_of
     (build_type_system
        \<lparr>get_type = make_type ''LA;'', get_super_class = Some (make_type ''LB;''),
         get_interfaces = [], get_access = 1, get_dmethods = [], get_vmethods = [],
         get_ifields = []\<rparr>
        (build_type_system
           \<lparr>get_type = make_type ''LA;'', get_super_class = Some (make_type ''LB;''),
            get_interfaces = [], get_access = 1, get_dmethods = [], get_vmethods = [],
            get_ifields = []\<rparr>
           empty_system))
     (Some (make_type ''LA;''))
     = Some \<lparr>get_type = make_type ''LA;'', get_super_class = Some (make_type ''LB;''),
         get_interfaces = [], get_access = 1, get_dmethods = [], get_vmethods = [],
         get_ifields = []\<rparr> \<and>
   get_children
     (build_type_system
        \<lparr>get_type = make_type ''LA;'', get_super_class = Some (make_type ''LB;''),
         get_interfaces = [], get_access = 1, get_dmethods = [], get_vmethods = [],
         get_ifields = []\<rparr>
        (build_type_system
           \<lparr>get_type = make_type ''LA;'', get_super_class = Some (make_type ''LB;''),
            get_interfaces = [], get_access = 1, get_dmethods = [], get_vmethods = [],
            get_ifields = []\<rparr>
           empty_system))
     (Some (make_type ''LB;''))
     = [make_type ''LA;'', make_type ''LA;''] \<and>
   type_class_of
     (build_type_system
        \<lparr>get_type = make_type ''LA;'', get_super_class = None,
         get_interfaces = [], get_access = 0x11, get_dmethods = [], get_vmethods = [],
         get_ifields = []\<rparr>
        (build_type_system
           \<lparr>get_type = make_type ''LA;'', get_super_class = Some (make_type ''LB;''),
            get_interfaces = [], get_access = 1, get_dmethods = [], get_vmethods = [],
            get_ifields = []\<rparr>
           empty_system))
     (Some (make_type ''LA;''))
     = Some \<lparr>get_type = make_type ''LA;'', get_super_class = Some (make_type ''LB;''),
         get_interfaces = [], get_access = 1, get_dmethods = [], get_vmethods = [],
         get_ifields = []\<rparr>"
proof -
  let ?A = "\<lparr>get_type = make_type ''LA;'', get_super_class = Some (make_type ''LB;''),
      get_interfaces = [], get_access = 1, get_dmethods = [], get_vmethods = [],
      get_ifields = []\<rparr>"
  let ?A' = "\<lparr>get_type = make_type ''LA;'', get_super_class = None,
      get_interfaces = [], get_access = 0x11, get_dmethods = [], get_vmethods = [],
      get_ifields = []\<rparr>"
  have s: "get_super_class ?A = Some (make_type ''LB;'')" by simp
  have t: "get_type ?A' = get_type ?A" by simp
  from register_twice [OF s, of empty_system ?A'] s t
  show ?thesis
    by (simp add: empty_system_simps type_class_of_def type_to_class_build get_children_build)
qed

text \<open>
  Claim C7 as stated fails for \<open>get_children\<close>: after the class \<open>LA;\<close> with superclass
  \<open>LB;\<close> was registered, the handle \<open>LB;\<close> was never registered (its \<open>type_class\<close> is
  null), yet its children are \<open>[LA;]\<close> and not the empty sequence.
\<close>

theorem absent_entries_counterexample:
  "make_type ''LB;'' \<notin> get_type ` set
     [\<lparr>get_type = make_type ''LA;'', get_super_class = Some (make_type ''LB;''),
       get_interfaces = [], get_access = 1, get_dmethods = [], get_vmethods = [],
       get_ifields = []\<rparr>] \<and>
   type_class_of (register_all
     [\<lparr>get_type = make_type ''LA;'', get_super_class = Some (make_type ''LB;''),
       get_interfaces = [], get_access = 1, get_dmethods = [], get_vmethods = [],
       get_ifields = []\<rparr>]) (Some (make_type ''LB;'')) = None \<and>
   get_children (register_all
     [\<lparr>get_type = make_type ''LA;'', get_super_class = Some (make_type ''LB;''),
       get_interfaces = [], get_access = 1, get_dmethods = [], get_vmethods = [],
       get_ifields = []\<rparr>]) (Some (make_type ''LB;'')) = [make_type ''LA;''] \<and>
   get_children (register_all
     [\<lparr>get_type = make_type ''LA;'', get_super_class = Some (make_type ''LB;''),
       get_interfaces = [], get_access = 1, get_dmethods = [], get_vmethods = [],
       get_ifields = []\<rparr>]) (Some (make_type ''LB;'')) \<noteq> []"
  by (simp add: register_all_def type_class_of_def type_to_class_build
      get_children_build empty_system_simps make_type_def)

text \<open>
  Claim C7, amended: after any sequence of registrations, \<open>type_class\<close> returns null
  for every handle that no registered class has as its type; \<open>get_children\<close> returns the
  empty sequence for every handle that no registered class declares as its superclass;
  \<open>check_cast\<close> returns false for every candidate handle that was never registered and is
  distinct from the target. Each of the three returns a value: none reaches a fault.
\<close>

theorem absent_entries:
  "(t \<notin> get_type ` set cs \<longrightarrow> type_class_of (register_all cs) (Some t) = None) \<and>
   (Some t \<notin> get_super_class ` set cs \<longrightarrow> get_children (register_all cs) (Some t) = []) \<and>
   (t \<notin> get_type ` set cs \<and> Some t \<noteq> base \<longrightarrow>
      check_cast (Suc n) (register_all cs) (Some t) base = Some False)"
proof -
  have 1: "type_to_class (register_all cs) t = None" if "t \<notin> get_type ` set cs"
    using that by (simp add: register_all_def type_to_class_fold empty_system_def)
  have 2: "class_hierarchy (register_all cs) t = None" if "Some t \<notin> get_super_class ` set cs"
    using that by (simp add: register_all_def class_hierarchy_fold empty_system_def)
  show ?thesis using 1 2 by (simp add: type_class_of_def get_children_def)
qed

theorem absent_entries_witness:
  "make_type ''LC;'' \<notin> get_type ` set
     [\<lparr>get_type = make_type ''LA;'', get_super_class = Some (make_type ''LB;''),
       get_interfaces = [], get_access = 1, get_dmethods = [], get_vmethods = [],
       get_ifields = []\<rparr>] \<and>
   Some (make_type ''LC;'') \<notin> get_super_class ` set
     [\<lparr>get_type = make_type ''LA;'', get_super_class = Some (make_type ''LB;''),
       get_interfaces = [], get_access = 1, get_dmethods = [], get_vmethods = [],
       get_ifields = []\<rparr>] \<and>
   Some (make_type ''LC;'') \<noteq> Some (make_type ''LA;'') \<and>
   type_class_of (register_all
     [\<lparr>get_type = make_type ''LA;'', get_super_class = Some (make_type ''LB;''),
       get_interfaces = [], get_access = 1, get_dmethods = [], get_vmethods = [],
       get_ifields = []\<rparr>]) (Some (make_type ''LC;'')) = None \<and>
   get_children (register_all
     [\<lparr>get_type = make_type ''LA;'', get_super_class = Some (make_type ''LB;''),
       get_interfaces = [], get_access = 1, get_dmethods = [], get_vmethods = [],
       get_ifields = []\<rparr>]) (Some (make_type ''LC;'')) = [] \<and>
   check_cast (Suc 0) (register_all
     [\<lparr>get_type = make_type ''LA;'', get_super_class = Some (make_type ''LB;''),
       get_interfaces = [], get_access = 1, get_dmethods = [], get_vmethods = [],
       get_ifields = []\<rparr>]) (Some (make_type ''LC;'')) (Some (make_type ''LA;''))
     = Some False"
  using absent_entries
    [where t = "make_type ''LC;''"
        and cs = "[\<lparr>get_type = make_type ''LA;'', get_super_class = Some (make_type ''LB;''),
          get_interfaces = [], get_access = 1, get_dmethods = [], get_vmethods = [],
          get_ifields = []\<rparr>]"
        and base = "Some (make_type ''LA;'')" and n = 0]
  by (simp add: make_type_def)

text \<open>
  Claim C8: \<open>check_cast\<close> returns true on equal arguments; when the index holds a class
  for \<open>a\<close> with superclass \<open>b\<close> and a class for \<open>b\<close> whose superclass is the root object
  type, \<open>check_cast\<close> of \<open>a\<close> and the root returns true, at every depth bound of at least
  three calls. On a null candidate and a target handle it returns false, so a class
  without superclass and without interfaces, distinct from the target, yields false;
  so does a superclass handle without entry in the index.
\<close>

theorem subtype_chain:
  "check_cast (Suc n) ts t t = Some True \<and>
   (type_class_of ts (Some a) = Some ca \<and> get_super_class ca = Some b \<and>
    type_class_of ts (Some b) = Some cb \<and> get_super_class cb = Some get_object_type \<longrightarrow>
      check_cast (Suc (Suc (Suc n))) ts (Some a) (Some get_object_type) = Some True) \<and>
   check_cast (Suc n) ts None (Some target) = Some False \<and>
   (type_class_of ts (Some a) = Some ca \<and> get_super_class ca = None \<and>
    get_interfaces ca = [] \<and> a \<noteq> target \<longrightarrow>
      check_cast (Suc (Suc n)) ts (Some a) (Some target) = Some False) \<and>
   (type_class_of ts (Some s) = None \<and> s \<noteq> target \<longrightarrow>
      check_cast (Suc n) ts (Some s) (Some target) = Some False)"
  by (simp add: type_class_of_def)

theorem subtype_chain_witness:
  "type_class_of (register_all
     [\<lparr>get_type = make_type ''LA;'', get_super_class = Some (make_type ''LB;''),
       get_interfaces = [], get_access = 1, get_dmethods = [], get_vmethods = [],
       get_ifields = []\<rparr>,
      \<lparr>get_type = make_type ''LB;'', get_super_class = Some get_object_type,
       get_interfaces = [], get_access = 1, get_dmethods = [], get_vmethods = [],
       get_ifields = []\<rparr>,
      \<lparr>get_type = make_type ''LC;'', get_super_class = None,
       get_interfaces = [], get_access = 1, get_dmethods = [], get_vmethods = [],
       get_ifields = []\<rparr>]) (Some (make_type ''LA;''))
     = Some \<lparr>get_type = make_type ''LA;'', get_super_class = Some (make_type ''LB;''),
       get_interfaces = [], get_access = 1, get_dmethods = [], get_vmethods = [],
       get_ifields = []\<rparr> \<and>
   check_cast (Suc (Suc (Suc 0))) (register_all
     [\<lparr>get_type = make_type ''LA;'', get_super_class = Some (make_type ''LB;''),
       get_interfaces = [], get_access = 1, get_dmethods = [], get_vmethods = [],
       get_ifields = []\<rparr>,
      \<lparr>get_type = make_type ''LB;'', get_super_class = Some get_object_type,
       get_interfaces = [], get_access = 1, get_dmethods = [], get_vmethods = [],
       get_ifields = []\<rparr>,
      \<lparr>get_type = make_type ''LC;'', get_super_class = None,
       get_interfaces = [], get_access = 1, get_dmethods = [], get_vmethods = [],
       get_ifields = []\<rparr>]) (Some (make_type ''LA;'')) (Some get_object_type)
     = Some True \<and>
   check_cast (Suc (Suc 0)) (register_all
     [\<lparr>get_type = make_type ''LA;'', get_super_class = Some (make_type ''LB;''),
       get_interfaces = [], get_access = 1, get_dmethods = [], get_vmethods = [],
       get_ifields = []\<rparr>,
      \<lparr>get_type = make_type ''LB;'', get_super_class = Some get_object_type,
       get_interfaces = [], get_access = 1, get_dmethods = [], get_vmethods = [],
       get_ifields = []\<rparr>,
      \<lparr>get_type = make_type ''LC;'', get_super_class = None,
       get_interfaces = [], get_access = 1, get_dmethods = [], get_vmethods = [],
       get_ifields = []\<rparr>]) (Some (make_type ''LC;'')) (Some (make_type ''LA;''))
     = Some False \<and>
   check_cast (Suc 0) (register_all
     [\<lparr>get_type = make_type ''LA;'', get_super_class = Some (make_type ''LB;''),
       get_interfaces = [], get_access = 1, get_dmethods = [], get_vmethods = [],
       get_ifields = []\<rparr>,
      \<lparr>get_type = make_type ''LB;'', get_super_class = Some get_object_type,
       get_interfaces = [], get_access = 1, get_dmethods = [], get_vmethods = [],
       get_ifields = []\<rparr>,
      \<lparr>get_type = make_type ''LC;'', get_super_class = None,
       get_interfaces = [], get_access = 1, get_dmethods = [], get_vmethods = [],
       get_ifields = []\<rparr>]) (Some (make_type ''LD;'')) (Some (make_type ''LA;''))
     = Some False"
proof -
  let ?A = "\<lparr>get_type = make_type ''LA;'', get_super_class = Some (make_type ''LB;''),
       get_interfaces = [], get_access = 1, get_dmethods = [], get_vmethods = [],
       get_ifields = []\<rparr>"
  let ?B = "\<lparr>get_type = make_type ''LB;'', get_super_class = Some get_object_type,
       get_interfaces = [], get_access = 1, get_dmethods = [], get_vmethods = [],
       get_ifields = []\<rparr>"
  let ?C = "\<lparr>get_type = make_type ''LC;'', get_super_class = None,
       get_interfaces = [], get_access = 1, get_dmethods = [], get_vmethods = [],
       get_ifields = []\<rparr>"
  let ?ts = "register_all [?A, ?B, ?C]"
  have a: "type_class_of ?ts (Some (make_type ''LA;'')) = Some ?A"
    by (simp add: register_all_def type_class_of_def type_to_class_build
        empty_system_simps make_type_def)
  have b: "type_class_of ?ts (Some (make_type ''LB;'')) = Some ?B"
    by (simp add: register_all_def type_class_of_def type_to_class_build
        empty_system_simps make_type_def)
  have c: "type_class_of ?ts (Some (make_type ''LC;'')) = Some ?C"
    by (simp add: register_all_def type_class_of_def type_to_class_build
        empty_system_simps make_type_def)
  have d: "type_class_of ?ts (Some (make_type ''LD;'')) = None"
    by (simp add: register_all_def type_class_of_def type_to_class_build
        empty_system_simps make_type_def)
  have ne: "make_type ''LC;'' \<noteq> make_type ''LA;''" "make_type ''LD;'' \<noteq> make_type ''LA;''"
    by (simp_all add: make_type_def)
  from subtype_chain [where n = 0 and ts = ?ts and t = "Some (make_type ''LA;'')"
      and a = "make_type ''LA;''" and ca = ?A and b = "make_type ''LB;''" and cb = ?B
      and target = "make_type ''LA;''" and s = "make_type ''LD;''"]
    subtype_chain [where n = 0 and ts = ?ts and t = "Some (make_type ''LC;'')"
      and a = "make_type ''LC;''" and ca = ?C and b = "make_type ''LB;''" and cb = ?B
      and target = "make_type ''LA;''" and s = "make_type ''LD;''"]
    a b c d ne
  show ?thesis by simp
qed

section \<open>The footprint estimator: patterns and sums\<close>

lemma regcomp_anchored: "regcomp (lit @ ''$'') = map Lit lit @ [Eol]"
  by (simp add: regcomp_def)

lemma match_here_anchored: "match_here (map Lit lit @ [Eol]) s \<longleftrightarrow> s = lit"
proof (induction lit arbitrary: s)
  case Nil
  show ?case by simp
next
  case (Cons c lit)
  show ?case by (cases s) (auto simp: Cons.IH)
qed

lemma regexec_search: "regexec re s \<longleftrightarrow> (\<exists>u. suffix u s \<and> match_here re u)"
proof (induction s)
  case Nil
  show ?case by simp
next
  case (Cons x s)
  show ?case by (auto simp: Cons.IH suffix_Cons)
qed

lemma regexec_anchored: "regexec (regcomp (lit @ ''$'')) s \<longleftrightarrow> suffix lit s"
  by (simp add: regexec_search regcomp_anchored match_here_anchored)

lemma regexec_Layout: "regexec (regcomp ''Layout;$'') s \<longleftrightarrow> suffix ''Layout;'' s"
  using regexec_anchored [of "''Layout;''" s] by simp

lemma regexec_View: "regexec (regcomp ''View;$'') s \<longleftrightarrow> suffix ''View;'' s"
  using regexec_anchored [of "''View;''" s] by simp

lemma regexec_ViewGroup: "regexec (regcomp ''ViewGroup;$'') s \<longleftrightarrow> suffix ''ViewGroup;'' s"
  using regexec_anchored [of "''ViewGroup;''" s] by simp

lemma regexec_Activity: "regexec (regcomp ''Activity;$'') s \<longleftrightarrow> suffix ''Activity;'' s"
  using regexec_anchored [of "''Activity;''" s] by simp

lemma matches_penalty_suffix:
  "matches_penalty s pen =
     (if suffix ''Layout;'' s then (True, 1500)
      else if suffix ''View;'' s then (True, 1500)
      else if suffix ''ViewGroup;'' s then (True, 1800)
      else if suffix ''Activity;'' s then (True, 1500)
      else (False, pen))"
  by (simp add: matches_penalty_def compile_regexes_def
      regexec_Layout regexec_View regexec_ViewGroup regexec_Activity)

lemma ViewGroup_not_Layout: "suffix ''ViewGroup;'' s \<Longrightarrow> \<not> suffix ''Layout;'' s"
proof
  assume a: "suffix ''ViewGroup;'' s" and b: "suffix ''Layout;'' s"
  have "suffix ''Layout;'' ''ViewGroup;''"
    by (rule suffix_length_suffix [OF b a]) simp
  then show False by (simp add: suffix_to_prefix)
qed

lemma ViewGroup_not_View: "suffix ''ViewGroup;'' s \<Longrightarrow> \<not> suffix ''View;'' s"
proof
  assume a: "suffix ''ViewGroup;'' s" and b: "suffix ''View;'' s"
  have "suffix ''View;'' ''ViewGroup;''"
    by (rule suffix_length_suffix [OF b a]) simp
  then show False by (simp add: suffix_to_prefix)
qed

lemma sint_of_nat_small:
  fixes n :: nat
  assumes "n < 2 ^ 31"
  shows "sint (of_nat n :: 32 word) = int n"
proof -
  have "int n < 2 ^ 31" using assms by (metis of_nat_less_iff of_nat_numeral of_nat_power)
  then have "signed_take_bit 31 (int n) = int n"
    by (intro signed_take_bit_int_eq_self) simp_all
  then show ?thesis by (simp add: signed_of_nat)
qed

text \<open>
  Claim C5: for every class without the interface flag that has 0 virtual methods, 2
  direct methods and 3 instance fields and whose descriptor ends in \<open>ViewGroup;\<close>,
  \<open>estimate_linear_alloc\<close> returns 1952. The penalty found is the 1800 of the
  view-group pattern; the plain view pattern, earlier in the list, does not match such a
  descriptor.
\<close>

theorem view_group_override:
  assumes "get_access clazz AND DEX_ACCESS_INTERFACE = 0"
    and "length (get_vmethods clazz) = 0"
    and "length (get_dmethods clazz) = 2"
    and "length (get_ifields clazz) = 3"
    and "suffix ''ViewGroup;'' (get_name (get_type clazz))"
  shows "estimate_linear_alloc clazz = 1952 \<and>
         matches_penalty (get_name (get_type clazz)) kObjectVtable = (True, 1800) \<and>
         \<not> regexec (regcomp ''View;$'') (get_name (get_type clazz))"
proof -
  let ?s = "get_name (get_type clazz)"
  have m: "matches_penalty ?s kObjectVtable = (True, 1800)"
    using assms(5) ViewGroup_not_Layout [of ?s] ViewGroup_not_View [of ?s]
    by (simp add: matches_penalty_suffix)
  have v: "\<not> regexec (regcomp ''View;$'') ?s"
    using assms(5) ViewGroup_not_View [of ?s] by (simp add: regexec_View)
  have "estimate_linear_alloc clazz = 1952"
    using assms(1-4) m
    by (simp add: estimate_linear_alloc_def Let_def kVtableSlotSize_def kMethodSize_def
        kInstanceFieldSize_def)
  with m v show ?thesis by simp
qed

theorem view_group_override_witness:
  "estimate_linear_alloc
     \<lparr>get_type = make_type ''Landroid/view/ViewGroup;'',
      get_super_class = Some (make_type ''Landroid/view/View;''),
      get_interfaces = [], get_access = 0x401,
      get_dmethods = [DexMethod ''<init>'', DexMethod ''<clinit>''],
      get_vmethods = [],
      get_ifields = [DexField ''a'', DexField ''b'', DexField ''c'']\<rparr> = 1952 \<and>
   suffix ''ViewGroup;'' (get_name (make_type ''Landroid/view/ViewGroup;'')) \<and>
   (0x401 :: 32 word) AND DEX_ACCESS_INTERFACE = 0"
  using view_group_override
    [of "\<lparr>get_type = make_type ''Landroid/view/ViewGroup;'',
      get_super_class = Some (make_type ''Landroid/view/View;''),
      get_interfaces = [], get_access = 0x401,
      get_dmethods = [DexMethod ''<init>'', DexMethod ''<clinit>''],
      get_vmethods = [],
      get_ifields = [DexField ''a'', DexField ''b'', DexField ''c'']\<rparr>"]
  by (simp add: make_type_def DEX_ACCESS_INTERFACE_def suffix_to_prefix)

text \<open>
  Claim C10: for every class with the interface flag set, \<open>estimate_linear_alloc\<close>
  returns (direct methods + virtual methods) * 52 + instance fields * 16, whatever the
  descriptors of the class and of its superclass are. The equation holds in the \<open>int\<close> of
  the result (modulo \<open>2 ^ 32\<close>), and between the numbers themselves when the sum is
  below \<open>2 ^ 31\<close>.
\<close>

theorem interface_estimate:
  assumes "get_access clazz AND DEX_ACCESS_INTERFACE \<noteq> 0"
  shows "estimate_linear_alloc clazz =
           of_nat ((length (get_dmethods clazz) + length (get_vmethods clazz)) * 52 +
                   length (get_ifields clazz) * 16) \<and>
         ((length (get_dmethods clazz) + length (get_vmethods clazz)) * 52 +
            length (get_ifields clazz) * 16 < 2 ^ 31 \<longrightarrow>
          sint (estimate_linear_alloc clazz) =
            (int (length (get_dmethods clazz)) + int (length (get_vmethods clazz))) * 52 +
            int (length (get_ifields clazz)) * 16)"
proof -
  let ?n = "(length (get_dmethods clazz) + length (get_vmethods clazz)) * 52 +
            length (get_ifields clazz) * 16"
  have e: "estimate_linear_alloc clazz = of_nat ?n"
    using assms
    by (simp add: estimate_linear_alloc_def Let_def kMethodSize_def kInstanceFieldSize_def
        algebra_simps)
  have "?n < 2 ^ 31 \<Longrightarrow> sint (of_nat ?n :: 32 word) = int ?n"
    by (rule sint_of_nat_small)
  then have "?n < 2 ^ 31 \<longrightarrow> sint (estimate_linear_alloc clazz) = int ?n"
    unfolding e by blast
  with e show ?thesis by (simp add: algebra_simps)
qed

theorem interface_estimate_witness:
  "estimate_linear_alloc
     \<lparr>get_type = make_type ''Lcom/foo/ClickableView;'',
      get_super_class = Some (make_type ''Ljava/lang/Object;''),
      get_interfaces = [], get_access = 0x601,
      get_dmethods = [DexMethod ''<clinit>''],
      get_vmethods = [DexMethod ''onClick'', DexMethod ''onTouch''],
      get_ifields = []\<rparr> = 156 \<and>
   sint (estimate_linear_alloc
     \<lparr>get_type = make_type ''Lcom/foo/ClickableView;'',
      get_super_class = Some (make_type ''Ljava/lang/Object;''),
      get_interfaces = [], get_access = 0x601,
      get_dmethods = [DexMethod ''<clinit>''],
      get_vmethods = [DexMethod ''onClick'', DexMethod ''onTouch''],
      get_ifields = []\<rparr>) = 156 \<and>
   (0x601 :: 32 word) AND DEX_ACCESS_INTERFACE \<noteq> 0"
  using interface_estimate
    [of "\<lparr>get_type = make_type ''Lcom/foo/ClickableView;'',
      get_super_class = Some (make_type ''Ljava/lang/Object;''),
      get_interfaces = [], get_access = 0x601,
      get_dmethods = [DexMethod ''<clinit>''],
      get_vmethods = [DexMethod ''onClick'', DexMethod ''onTouch''],
      get_ifields = []\<rparr>"]
  by (simp add: DEX_ACCESS_INTERFACE_def)

section \<open>The scope: flattening and committing\<close>

lemma push_classes_append: "push_classes v classes = v @ classes"
  by (induction classes arbitrary: v) simp_all

lemma push_dexen_concat: "push_dexen v dexen = v @ concat dexen"
  by (induction dexen arbitrary: v) (simp_all add: push_classes_append)

lemma build_class_scope_concat: "build_class_scope dexen = concat dexen"
  by (simp add: build_class_scope_def push_dexen_concat)

lemma erase_remove_if_filter: "erase_remove_if pred classes = filter (\<lambda>cls. \<not> pred cls) classes"
  by (induction classes) simp_all

lemma erase_remove_if_eq: "erase_remove_if pred = filter (\<lambda>cls. \<not> pred cls)"
  by (rule ext) (rule erase_remove_if_filter)

lemma post_dexen_changes_filter:
  "post_dexen_changes debug v dexen = Inr dexen' \<Longrightarrow>
     dexen' = map (filter (\<lambda>cls. cls \<in> set v)) dexen"
  by (simp add: post_dexen_changes_def erase_remove_if_eq Let_def split: if_splits)

lemma post_dexen_changes_kept:
  assumes "set v \<subseteq> set (concat dexen)"
  shows "post_dexen_changes debug v dexen = Inr (map (filter (\<lambda>cls. cls \<in> set v)) dexen)"
proof -
  have "set v \<subseteq> set (concat (map (filter (\<lambda>cls. cls \<in> set v)) dexen))"
    using assms by auto
  then show ?thesis
    by (auto simp: post_dexen_changes_def erase_remove_if_eq Let_def)
qed

lemma filter_partitions_subseq: "list_all2 subseq (map (filter p) dexen) dexen"
  by (induction dexen) simp_all

text \<open>
  Claim C3: for every sequence of partitions \<open>P\<close>, \<open>post_dexen_changes\<close> on the scope
  that \<open>build_class_scope\<close> makes of \<open>P\<close> leaves \<open>P\<close> as it was, and its debug assertion
  holds; \<open>build_class_scope\<close> is the concatenation of the partitions in their order.
\<close>

theorem scope_round_trip:
  "post_dexen_changes debug (build_class_scope P) P = Inr P \<and>
   build_class_scope P = concat P"
proof -
  have "map (filter (\<lambda>cls. cls \<in> set (concat P))) P = P"
    by (rule map_idI) (auto intro: filter_True)
  then show ?thesis
    using post_dexen_changes_kept [of "concat P" P debug]
    by (simp add: build_class_scope_concat)
qed

theorem scope_round_trip_witness:
  "post_dexen_changes True (build_class_scope [[1, 2], [], [3 :: nat]]) [[1, 2], [], [3]]
     = Inr [[1, 2], [], [3]] \<and>
   build_class_scope [[1, 2], [], [3 :: nat]] = [1, 2, 3]"
  using scope_round_trip [of True "[[1, 2], [], [3 :: nat]]"]
  by (simp add: build_class_scope_def)

text \<open>
  Claim C4: when the scope \<open>v\<close> holds the classes of \<open>P\<close> except \<open>X\<close> (the built scope
  with \<open>X\<close> removed), \<open>post_dexen_changes\<close> removes \<open>X\<close> from every partition of \<open>P\<close> and
  keeps every other class, in the order it had in its partition. For any scope \<open>w\<close> at
  all, each partition of the result is a subsequence of the partition it came from: no
  class is added.
\<close>

theorem scope_filtering:
  assumes "set v = set (build_class_scope P) - {X}"
  shows "post_dexen_changes debug v P = Inr (map (removeAll X) P) \<and>
         X \<notin> set (concat (map (removeAll X) P)) \<and>
         (post_dexen_changes debug' w P = Inr P' \<longrightarrow>
            P' = map (filter (\<lambda>cls. cls \<in> set w)) P \<and> list_all2 subseq P' P)"
proof -
  have v: "set v = set (concat P) - {X}"
    using assms by (simp add: build_class_scope_concat)
  have "map (filter (\<lambda>cls. cls \<in> set v)) P = map (removeAll X) P"
  proof (rule map_cong [OF refl])
    fix classes assume "classes \<in> set P"
    then have "\<And>cls. cls \<in> set classes \<Longrightarrow> cls \<in> set v \<longleftrightarrow> cls \<noteq> X"
      using v by auto
    then have "filter (\<lambda>cls. cls \<in> set v) classes = filter (\<lambda>cls. cls \<noteq> X) classes"
      by (auto intro: filter_cong)
    then show "filter (\<lambda>cls. cls \<in> set v) classes = removeAll X classes"
      by (simp add: removeAll_filter_not_eq) (metis)
  qed
  moreover have "set v \<subseteq> set (concat P)" using v by auto
  ultimately have 1: "post_dexen_changes debug v P = Inr (map (removeAll X) P)"
    using post_dexen_changes_kept [of v P debug] by simp
  have 2: "X \<notin> set (concat (map (removeAll X) P))" by simp
  have 3: "post_dexen_changes debug' w P = Inr P' \<longrightarrow>
            P' = map (filter (\<lambda>cls. cls \<in> set w)) P \<and> list_all2 subseq P' P"
    using post_dexen_changes_filter [of debug' w P P'] filter_partitions_subseq by auto
  from 1 2 3 show ?thesis by blast
qed

theorem scope_filtering_witness:
  "set [1, 3] = set (build_class_scope [[1, 2], [3 :: nat]]) - {2} \<and>
   post_dexen_changes True [1, 3] [[1, 2], [3 :: nat]] = Inr [[1], [3]] \<and>
   post_dexen_changes False [1, 7] [[1, 2], [3 :: nat]] = Inr [[1], []] \<and>
   list_all2 subseq [[1], []] [[1, 2], [3 :: nat]]"
proof -
  have h: "set [1, 3] = set (build_class_scope [[1, 2], [3 :: nat]]) - {2}"
    by (auto simp: build_class_scope_def)
  have w: "post_dexen_changes False [1, 7] [[1, 2], [3 :: nat]] = Inr [[1], []]"
    by (simp add: post_dexen_changes_def)
  from scope_filtering [OF h, of True False "[1, 7]" "[[1], []]"] h w
  show ?thesis by simp
qed

end
